theory Spec2Isabelle
  imports Complex_Main "HOL-Library.Word"
begin

section \<open>Data model\<close>

text \<open>
  The notebook \<^verbatim>\<open>Examples.ipynb\<close> evaluates one array formula in several ways. Its
  inputs are NumPy arrays: \<^verbatim>\<open>x = np.random.poisson(...)\<close> is an \<^verbatim>\<open>int64\<close> array,
  \<^verbatim>\<open>y\<close> and \<^verbatim>\<open>z\<close> are \<^verbatim>\<open>float64\<close> arrays; the vectorised variant declares the
  same element types (\<^verbatim>\<open>'i8, f8, f8, b1, f8[:], f8[:]'\<close>).

  \<^item> An \<^verbatim>\<open>int64\<close> is a 64-bit word: \<open>*\<close> and \<open>^\<close> wrap around, \<open>sint\<close> reads it.
  \<^item> A \<^verbatim>\<open>float64\<close> is the real number it denotes (finite values; infinities and NaN
    are outside this model). The arithmetic is the standard model of floating
    point: every operation, and every conversion of an integer, is the exact
    operation followed by a rounding \<open>rnd\<close>. The rounding is a parameter of every
    function below, and nothing is assumed about it unless a theorem says so.
    The float literals \<^verbatim>\<open>1.5\<close> and \<^verbatim>\<open>1.0\<close> denote themselves.
\<close>

type_synonym i8 = "64 word"
type_synonym f8 = real
type_synonym rounding = "real \<Rightarrow> real"

definition fadd :: "rounding \<Rightarrow> f8 \<Rightarrow> f8 \<Rightarrow> f8" where
  "fadd rnd a b = rnd (a + b)"

definition fsub :: "rounding \<Rightarrow> f8 \<Rightarrow> f8 \<Rightarrow> f8" where
  "fsub rnd a b = rnd (a - b)"

definition fmul :: "rounding \<Rightarrow> f8 \<Rightarrow> f8 \<Rightarrow> f8" where
  "fmul rnd a b = rnd (a * b)"

text \<open>Conversion of an integer (a Python \<^verbatim>\<open>int\<close>, or an \<^verbatim>\<open>int64\<close> read by \<open>sint\<close>)
  to \<^verbatim>\<open>float64\<close>.\<close>

definition i2f :: "rounding \<Rightarrow> int \<Rightarrow> f8" where
  "i2f rnd k = rnd (of_int k)"

text \<open>The failure of the numeric runtime that the notebook can meet: shapes that do
  not broadcast (\<^verbatim>\<open>ValueError\<close>). \<open>TypeError\<close> marks, in the store model below, a
  reference to an array of another kind than the one this model gives the
  argument.\<close>

datatype error = ValueError | TypeError

text \<open>An operand of an array expression: a scalar (zero-dimensional) or a
  one-dimensional array.\<close>

datatype 'a operand = Scalar 'a | Vec "'a list"

text \<open>A two-dimensional array: its number of columns and its rows. The number of
  columns is kept beside the rows, so that an array with no row still has its shape
  \<^verbatim>\<open>(0, 15)\<close>.\<close>

datatype 'a mat = Mat (ncols: nat) (rows: "'a list list")

definition shape :: "'a mat \<Rightarrow> nat \<times> nat" where
  "shape m = (length (rows m), ncols m)"

definition well_shaped :: "'a mat \<Rightarrow> bool" where
  "well_shaped m = list_all (\<lambda>r. length r = ncols m) (rows m)"

text \<open>\<^verbatim>\<open>np.zeros((n, m))\<close>.\<close>

definition zeros :: "nat \<Rightarrow> nat \<Rightarrow> f8 mat" where
  "zeros n m = Mat m (replicate n (replicate m 0))"

section \<open>NumPy's element-wise operations\<close>

text \<open>The entry an operand contributes at index \<open>i\<close> when it is broadcast against a
  longer axis: a scalar and an array of length 1 give their one value everywhere.\<close>

fun pick :: "'a operand \<Rightarrow> nat \<Rightarrow> 'a" where
  "pick (Scalar a) i = a"
| "pick (Vec vs) i = (if length vs = 1 then hd vs else vs ! i)"

text \<open>An operand fits an axis of length \<open>n\<close> when it is a scalar, has length 1 or has
  length \<open>n\<close>.\<close>

fun compat :: "nat \<Rightarrow> 'a operand \<Rightarrow> bool" where
  "compat n (Scalar a) = True"
| "compat n (Vec vs) = (length vs = n \<or> length vs = 1)"

fun elementwise :: "('a \<Rightarrow> 'b) \<Rightarrow> 'a operand \<Rightarrow> 'b operand" where
  "elementwise f (Scalar a) = Scalar (f a)"
| "elementwise f (Vec as) = Vec (map f as)"

text \<open>A binary operation on two operands, with NumPy's broadcasting: equal lengths
  combine element by element, a scalar or an array of length 1 is stretched, any
  other pair of lengths raises \<^verbatim>\<open>ValueError\<close>.\<close>

fun broadcast2 :: "('a \<Rightarrow> 'b \<Rightarrow> 'c) \<Rightarrow> 'a operand \<Rightarrow> 'b operand \<Rightarrow> error + 'c operand" where
  "broadcast2 f (Scalar a) (Scalar b) = Inr (Scalar (f a b))"
| "broadcast2 f (Scalar a) (Vec bs) = Inr (Vec (map (f a) bs))"
| "broadcast2 f (Vec as) (Scalar b) = Inr (Vec (map (\<lambda>a. f a b) as))"
| "broadcast2 f (Vec as) (Vec bs) =
     (if length as = length bs then Inr (Vec (map2 f as bs))
      else if length as = 1 then Inr (Vec (map (f (hd as)) bs))
      else if length bs = 1 then Inr (Vec (map (\<lambda>a. f a (hd bs)) as))
      else Inl ValueError)"

text \<open>The assignment \<^verbatim>\<open>out[:, t] = v\<close>: the value is broadcast to the column (one
  entry per row); a one-dimensional value of another length than the number of
  rows or 1 raises \<^verbatim>\<open>ValueError\<close>.\<close>

fun set_column :: "'a mat \<Rightarrow> nat \<Rightarrow> 'a operand \<Rightarrow> error + 'a mat" where
  "set_column (Mat c rs) t (Scalar a) = Inr (Mat c (map (\<lambda>r. r[t := a]) rs))"
| "set_column (Mat c rs) t (Vec vs) =
     (if length vs = length rs then Inr (Mat c (map2 (\<lambda>r v. r[t := v]) rs vs))
      else if length vs = 1 then Inr (Mat c (map (\<lambda>r. r[t := hd vs]) rs))
      else Inl ValueError)"

text \<open>\<^verbatim>\<open>adj * out\<close>: a new array, every entry multiplied.\<close>

fun scale :: "rounding \<Rightarrow> f8 \<Rightarrow> f8 mat \<Rightarrow> f8 mat" where
  "scale rnd a (Mat c rs) = Mat c (map (map (fmul rnd a)) rs)"

section \<open>The predictor\<close>

text \<open>
  \<^verbatim>\<open>
  def predict_over_time(x, y, z, overlay=False):
      out = np.zeros((x.shape[0], 15))
      for t in range(15):
          out[:, t] = t * x ** 2 + y - 2 * z - 2 * t
      adj = 1.5 if overlay else 1.0
      return adj * out
  \<close>
  The right-hand side of the assignment, \<^verbatim>\<open>((t * x ** 2 + y) - 2 * z) - 2 * t\<close>:
  \<^verbatim>\<open>t * x ** 2\<close> is \<^verbatim>\<open>int64\<close> arithmetic, converted to \<^verbatim>\<open>float64\<close> when \<^verbatim>\<open>y\<close> is added;
  the Python integers \<^verbatim>\<open>2\<close> and \<^verbatim>\<open>2 * t\<close> are converted when they meet a float.
\<close>

definition column_value :: "rounding \<Rightarrow> nat \<Rightarrow> i8 list \<Rightarrow> f8 operand \<Rightarrow> f8 operand \<Rightarrow> error + f8 operand" where
  "column_value rnd t x y z =
     (case broadcast2 (fadd rnd) (Vec (map (\<lambda>v. i2f rnd (sint (of_nat t * v ^ 2))) x)) y of
        Inl e \<Rightarrow> Inl e
      | Inr a \<Rightarrow>
         (case broadcast2 (fsub rnd) a (elementwise (fmul rnd (i2f rnd 2)) z) of
            Inl e \<Rightarrow> Inl e
          | Inr b \<Rightarrow> Inr (elementwise (\<lambda>v. fsub rnd v (i2f rnd (2 * int t))) b)))"

text \<open>The loop \<^verbatim>\<open>for t in range(15)\<close>, over the list of the remaining time steps; an
  exception ends it.\<close>

fun predict_loop :: "rounding \<Rightarrow> i8 list \<Rightarrow> f8 operand \<Rightarrow> f8 operand \<Rightarrow> nat list \<Rightarrow> f8 mat \<Rightarrow> error + f8 mat" where
  "predict_loop rnd x y z [] out = Inr out"
| "predict_loop rnd x y z (t # ts) out =
     (case column_value rnd t x y z of
        Inl e \<Rightarrow> Inl e
      | Inr v \<Rightarrow>
         (case set_column out t v of
            Inl e \<Rightarrow> Inl e
          | Inr out' \<Rightarrow> predict_loop rnd x y z ts out'))"

definition predict_over_time :: "rounding \<Rightarrow> i8 list \<Rightarrow> f8 operand \<Rightarrow> f8 operand \<Rightarrow> bool \<Rightarrow> error + f8 mat" where
  "predict_over_time rnd x y z overlay =
     (case predict_loop rnd x y z [0..<15] (zeros (length x) 15) of
        Inl e \<Rightarrow> Inl e
      | Inr out \<Rightarrow> (let adj = (if overlay then 3 / 2 else 1) in Inr (scale rnd adj out)))"

text \<open>The value the formula of the specification gives for one element and one
  time step, \<^verbatim>\<open>t * x[i]**2 + y[i] - 2*z[i] - 2*t\<close>, in the arithmetic of the arrays'
  elements.\<close>

definition formula :: "rounding \<Rightarrow> nat \<Rightarrow> i8 \<Rightarrow> f8 \<Rightarrow> f8 \<Rightarrow> f8" where
  "formula rnd t xi yi zi =
     fsub rnd (fsub rnd (fadd rnd (i2f rnd (sint (of_nat t * xi ^ 2))) yi)
                        (fmul rnd (i2f rnd 2) zi))
              (i2f rnd (2 * int t))"

section \<open>The compiled variants\<close>

text \<open>
  \<^verbatim>\<open>
  @jit
  def jitted_func(x, y, z, overlay=False):
      out = np.zeros((x.shape[0], 15))
      for t in range(15):
          out[:, t] = t * x ** 2 + y - 2 * z - 2 * t
      adj = 1.5 if overlay else 1.0
      return adj * out
  \<close>
  The body is, statement for statement, the body of \<^verbatim>\<open>predict_over_time\<close>; the
  compiled array expressions are those of NumPy on these element types.
\<close>

definition jitted_func :: "rounding \<Rightarrow> i8 list \<Rightarrow> f8 operand \<Rightarrow> f8 operand \<Rightarrow> bool \<Rightarrow> error + f8 mat" where
  "jitted_func rnd x y z overlay =
     (case predict_loop rnd x y z [0..<15] (zeros (length x) 15) of
        Inl e \<Rightarrow> Inl e
      | Inr out \<Rightarrow> (let adj = (if overlay then 3 / 2 else 1) in Inr (scale rnd adj out)))"

text \<open>
  \<^verbatim>\<open>
  @guvectorize('i8, f8, f8, b1, f8[:], f8[:]', '(), (), (), (), (s) -> (s)')
  def fast_predict_over_time(x, y, z, overlay, _, out):
      adj = 1.5 if overlay else 1.0
      for t in range(len(out)):
          out[t] = adj * (t * x ** 2 + y - 2 * z - 2 * t)
  \<close>
  The decorated function is the kernel of a generalised universal function. In the
  kernel \<^verbatim>\<open>x\<close>, \<^verbatim>\<open>y\<close>, \<^verbatim>\<open>z\<close> are scalars, \<^verbatim>\<open>t\<close> is an \<^verbatim>\<open>int64\<close>, and \<^verbatim>\<open>_\<close> and
  \<^verbatim>\<open>out\<close> are one-dimensional arrays of the same length \<^verbatim>\<open>s\<close>.
\<close>

definition kernel_value :: "rounding \<Rightarrow> nat \<Rightarrow> i8 \<Rightarrow> f8 \<Rightarrow> f8 \<Rightarrow> f8" where
  "kernel_value rnd t x y z =
     fsub rnd (fsub rnd (fadd rnd (i2f rnd (sint (of_nat t * x ^ 2))) y)
                        (fmul rnd (i2f rnd 2) z))
              (i2f rnd (sint (2 * of_nat t :: i8)))"

fun kernel_loop :: "rounding \<Rightarrow> i8 \<Rightarrow> f8 \<Rightarrow> f8 \<Rightarrow> f8 \<Rightarrow> nat list \<Rightarrow> f8 list \<Rightarrow> f8 list" where
  "kernel_loop rnd x y z adj [] out = out"
| "kernel_loop rnd x y z adj (t # ts) out =
     kernel_loop rnd x y z adj ts (out[t := fmul rnd adj (kernel_value rnd t x y z)])"

definition fast_predict_over_time_kernel :: "rounding \<Rightarrow> i8 \<Rightarrow> f8 \<Rightarrow> f8 \<Rightarrow> bool \<Rightarrow> f8 list \<Rightarrow> f8 list \<Rightarrow> f8 list" where
  "fast_predict_over_time_kernel rnd x y z overlay dummy out =
     (let adj = (if overlay then 3 / 2 else 1)
      in kernel_loop rnd x y z adj [0..<length out] out)"

text \<open>
  The call \<^verbatim>\<open>fast_predict_over_time(x, y, z, overlay, dummy)\<close> of the generalised
  universal function, by its layout \<^verbatim>\<open>(), (), (), (), (s) -> (s)\<close>: the last axis of
  the fifth argument is the core dimension \<^verbatim>\<open>s\<close>; all other axes are loop
  dimensions and are broadcast against each other; the output has the loop
  dimensions followed by \<^verbatim>\<open>s\<close>, and the kernel runs once per loop index on the
  entries of the inputs and on one row of the output. The fifth argument is a
  one-dimensional array of length \<^verbatim>\<open>s\<close>, or (as the notebook's \<^verbatim>\<open>res\<close>) a
  two-dimensional array with \<^verbatim>\<open>s\<close> columns.
\<close>

datatype 'a core_arg = Core1 "'a list" | Core2 "'a mat"

fun core_len :: "'a core_arg \<Rightarrow> nat" where
  "core_len (Core1 d) = length d"
| "core_len (Core2 m) = ncols m"

fun core_row :: "'a core_arg \<Rightarrow> nat \<Rightarrow> 'a list" where
  "core_row (Core1 d) i = d"
| "core_row (Core2 m) i = (if length (rows m) = 1 then hd (rows m) else rows m ! i)"

fun operand_dim :: "'a operand \<Rightarrow> nat option" where
  "operand_dim (Scalar a) = None"
| "operand_dim (Vec vs) = Some (length vs)"

fun core_loop_dim :: "'a core_arg \<Rightarrow> nat option" where
  "core_loop_dim (Core1 d) = None"
| "core_loop_dim (Core2 m) = Some (length (rows m))"

text \<open>Broadcasting a loop axis of length \<open>a\<close> against the loop axis of another
  argument (\<open>None\<close>: the argument has no loop axis).\<close>

fun broadcast_dim :: "nat \<Rightarrow> nat option \<Rightarrow> error + nat" where
  "broadcast_dim a None = Inr a"
| "broadcast_dim a (Some b) =
     (if a = b then Inr a
      else if a = 1 then Inr b
      else if b = 1 then Inr a
      else Inl ValueError)"

definition loop_length :: "i8 list \<Rightarrow> f8 operand \<Rightarrow> f8 operand \<Rightarrow> f8 core_arg \<Rightarrow> error + nat" where
  "loop_length x y z dummy =
     (case broadcast_dim (length x) (operand_dim y) of
        Inl e \<Rightarrow> Inl e
      | Inr a \<Rightarrow>
         (case broadcast_dim a (operand_dim z) of
            Inl e \<Rightarrow> Inl e
          | Inr b \<Rightarrow> broadcast_dim b (core_loop_dim dummy)))"

text \<open>The loop over the loop indices: one kernel call per index, writing row \<open>i\<close> of
  the output (the indices are those of the output's rows).\<close>

fun gufunc_loop :: "rounding \<Rightarrow> i8 list \<Rightarrow> f8 operand \<Rightarrow> f8 operand \<Rightarrow> bool \<Rightarrow> f8 core_arg \<Rightarrow> nat list \<Rightarrow> f8 list list \<Rightarrow> f8 list list" where
  "gufunc_loop rnd x y z overlay dummy [] out = out"
| "gufunc_loop rnd x y z overlay dummy (i # is) out =
     gufunc_loop rnd x y z overlay dummy is
       (out[i := fast_predict_over_time_kernel rnd (pick (Vec x) i) (pick y i) (pick z i) overlay
                   (core_row dummy i) (out ! i)])"

text \<open>The output array is allocated by the call; the kernel overwrites every entry
  of it, so its initial content (zeros here) does not show.\<close>

definition fast_predict_over_time :: "rounding \<Rightarrow> i8 list \<Rightarrow> f8 operand \<Rightarrow> f8 operand \<Rightarrow> bool \<Rightarrow> f8 core_arg \<Rightarrow> error + f8 mat" where
  "fast_predict_over_time rnd x y z overlay dummy =
     (case loop_length x y z dummy of
        Inl e \<Rightarrow> Inl e
      | Inr n \<Rightarrow>
         (let s = core_len dummy
          in Inr (Mat s (gufunc_loop rnd x y z overlay dummy [0..<n] (replicate n (replicate s 0))))))"

text \<open>The row the kernel computes for the loop index \<open>i\<close>, with \<open>s\<close> time steps.\<close>

definition gufunc_row :: "rounding \<Rightarrow> i8 list \<Rightarrow> f8 operand \<Rightarrow> f8 operand \<Rightarrow> bool \<Rightarrow> nat \<Rightarrow> nat \<Rightarrow> f8 list" where
  "gufunc_row rnd x y z overlay s i =
     map (\<lambda>t. fmul rnd (if overlay then 3 / 2 else 1)
                 (kernel_value rnd t (pick (Vec x) i) (pick y i) (pick z i))) [0..<s]"

section \<open>Deferred evaluation\<close>

text \<open>
  \<^verbatim>\<open>delayed(f)(args)\<close> builds a task and evaluates nothing; \<^verbatim>\<open>.compute()\<close> runs it.
  \<^verbatim>\<open>
  fast_predict_over_time = delayed(fast_predict_over_time)
  fast_predict_over_time(x, y, z, False, res).compute()
  fast_jitted_func = delayed(jitted_func)
  fast_jitted_func(x, y, z).compute()
  \<close>
\<close>

datatype 'a task = Delayed "unit \<Rightarrow> 'a"

fun compute :: "'a task \<Rightarrow> 'a" where
  "compute (Delayed f) = f ()"

definition fast_predict_over_time_delayed :: "rounding \<Rightarrow> i8 list \<Rightarrow> f8 operand \<Rightarrow> f8 operand \<Rightarrow> bool \<Rightarrow> f8 core_arg \<Rightarrow> (error + f8 mat) task" where
  "fast_predict_over_time_delayed rnd x y z overlay dummy =
     Delayed (\<lambda>_. fast_predict_over_time rnd x y z overlay dummy)"

definition fast_jitted_func :: "rounding \<Rightarrow> i8 list \<Rightarrow> f8 operand \<Rightarrow> f8 operand \<Rightarrow> bool \<Rightarrow> (error + f8 mat) task" where
  "fast_jitted_func rnd x y z overlay = Delayed (\<lambda>_. jitted_func rnd x y z overlay)"

section \<open>The store: arrays as mutable objects\<close>

text \<open>
  For the claims about mutation and aliasing the arrays live in a store: a list of
  array objects, an address being an index. Allocation appends a new object, so
  a fresh address is one the store did not have. A function takes the addresses
  of its arguments and returns the new store and the address of its result.
  The temporaries of an array expression are not kept: nothing can reach them.
\<close>

type_synonym addr = nat

datatype ndarray = IntArray "i8 list" | FloatArray "f8 operand" | FloatMatrix "f8 mat"

type_synonym heap = "ndarray list"

definition load :: "heap \<Rightarrow> addr \<Rightarrow> ndarray option" where
  "load h a = (if a < length h then Some (h ! a) else None)"

definition alloc :: "heap \<Rightarrow> ndarray \<Rightarrow> heap \<times> addr" where
  "alloc h v = (h @ [v], length h)"

definition store :: "heap \<Rightarrow> addr \<Rightarrow> ndarray \<Rightarrow> heap" where
  "store h a v = h[a := v]"

definition load_int :: "heap \<Rightarrow> addr \<Rightarrow> error + i8 list" where
  "load_int h a = (case load h a of Some (IntArray x) \<Rightarrow> Inr x | _ \<Rightarrow> Inl TypeError)"

definition load_float :: "heap \<Rightarrow> addr \<Rightarrow> error + f8 operand" where
  "load_float h a = (case load h a of Some (FloatArray y) \<Rightarrow> Inr y | _ \<Rightarrow> Inl TypeError)"

definition load_matrix :: "heap \<Rightarrow> addr \<Rightarrow> error + f8 mat" where
  "load_matrix h a = (case load h a of Some (FloatMatrix m) \<Rightarrow> Inr m | _ \<Rightarrow> Inl TypeError)"

definition load_core :: "heap \<Rightarrow> addr \<Rightarrow> error + f8 core_arg" where
  "load_core h a =
     (case load h a of
        Some (FloatArray (Vec d)) \<Rightarrow> Inr (Core1 d)
      | Some (FloatMatrix m) \<Rightarrow> Inr (Core2 m)
      | _ \<Rightarrow> Inl TypeError)"

text \<open>\<^verbatim>\<open>predict_over_time\<close> on the store. Each pass of the loop reads \<^verbatim>\<open>x\<close>, \<^verbatim>\<open>y\<close>, \<^verbatim>\<open>z\<close>
  and \<^verbatim>\<open>out\<close> from the store as it then is, and writes \<^verbatim>\<open>out\<close> back; \<^verbatim>\<open>np.zeros\<close> and
  \<^verbatim>\<open>adj * out\<close> allocate.\<close>

fun predict_loop_heap :: "rounding \<Rightarrow> addr \<Rightarrow> addr \<Rightarrow> addr \<Rightarrow> addr \<Rightarrow> nat list \<Rightarrow> heap \<Rightarrow> error + heap" where
  "predict_loop_heap rnd xa ya za oa [] h = Inr h"
| "predict_loop_heap rnd xa ya za oa (t # ts) h =
     (case load_int h xa of Inl e \<Rightarrow> Inl e | Inr x \<Rightarrow>
     (case load_float h ya of Inl e \<Rightarrow> Inl e | Inr y \<Rightarrow>
     (case load_float h za of Inl e \<Rightarrow> Inl e | Inr z \<Rightarrow>
     (case load_matrix h oa of Inl e \<Rightarrow> Inl e | Inr out \<Rightarrow>
     (case column_value rnd t x y z of Inl e \<Rightarrow> Inl e | Inr v \<Rightarrow>
     (case set_column out t v of Inl e \<Rightarrow> Inl e | Inr out' \<Rightarrow>
        predict_loop_heap rnd xa ya za oa ts (store h oa (FloatMatrix out'))))))))"

definition predict_over_time_heap :: "rounding \<Rightarrow> heap \<Rightarrow> addr \<Rightarrow> addr \<Rightarrow> addr \<Rightarrow> bool \<Rightarrow> error + heap \<times> addr" where
  "predict_over_time_heap rnd h xa ya za overlay =
     (case load_int h xa of Inl e \<Rightarrow> Inl e | Inr x \<Rightarrow>
     (case alloc h (FloatMatrix (zeros (length x) 15)) of (h1, oa) \<Rightarrow>
     (case predict_loop_heap rnd xa ya za oa [0..<15] h1 of Inl e \<Rightarrow> Inl e | Inr h2 \<Rightarrow>
     (case load_matrix h2 oa of Inl e \<Rightarrow> Inl e | Inr out \<Rightarrow>
        (let adj = (if overlay then 3 / 2 else 1)
         in Inr (alloc h2 (FloatMatrix (scale rnd adj out))))))))"

text \<open>The generalised universal function on the store: the call allocates the
  output, and each kernel call reads the arguments from the store and writes one
  row of the output.\<close>

fun gufunc_loop_heap :: "rounding \<Rightarrow> addr \<Rightarrow> addr \<Rightarrow> addr \<Rightarrow> bool \<Rightarrow> addr \<Rightarrow> addr \<Rightarrow> nat list \<Rightarrow> heap \<Rightarrow> error + heap" where
  "gufunc_loop_heap rnd xa ya za overlay da oa [] h = Inr h"
| "gufunc_loop_heap rnd xa ya za overlay da oa (i # is) h =
     (case load_int h xa of Inl e \<Rightarrow> Inl e | Inr x \<Rightarrow>
     (case load_float h ya of Inl e \<Rightarrow> Inl e | Inr y \<Rightarrow>
     (case load_float h za of Inl e \<Rightarrow> Inl e | Inr z \<Rightarrow>
     (case load_core h da of Inl e \<Rightarrow> Inl e | Inr dummy \<Rightarrow>
     (case load_matrix h oa of Inl e \<Rightarrow> Inl e | Inr out \<Rightarrow>
        gufunc_loop_heap rnd xa ya za overlay da oa is
          (store h oa (FloatMatrix (Mat (ncols out)
             ((rows out)[i := fast_predict_over_time_kernel rnd (pick (Vec x) i) (pick y i) (pick z i)
                                overlay (core_row dummy i) (rows out ! i)])))))))))"

definition fast_predict_over_time_heap :: "rounding \<Rightarrow> heap \<Rightarrow> addr \<Rightarrow> addr \<Rightarrow> addr \<Rightarrow> bool \<Rightarrow> addr \<Rightarrow> error + heap \<times> addr" where
  "fast_predict_over_time_heap rnd h xa ya za overlay da =
     (case load_int h xa of Inl e \<Rightarrow> Inl e | Inr x \<Rightarrow>
     (case load_float h ya of Inl e \<Rightarrow> Inl e | Inr y \<Rightarrow>
     (case load_float h za of Inl e \<Rightarrow> Inl e | Inr z \<Rightarrow>
     (case load_core h da of Inl e \<Rightarrow> Inl e | Inr dummy \<Rightarrow>
     (case loop_length x y z dummy of Inl e \<Rightarrow> Inl e | Inr n \<Rightarrow>
     (let s = core_len dummy in
     (case alloc h (FloatMatrix (Mat s (replicate n (replicate s 0)))) of (h1, oa) \<Rightarrow>
     (case gufunc_loop_heap rnd xa ya za overlay da oa [0..<n] h1 of Inl e \<Rightarrow> Inl e
      | Inr h2 \<Rightarrow> Inr (h2, oa)))))))))"

text \<open>What a caller sees of a call: the error, or the content of the returned array.\<close>

fun result_of :: "error + heap \<times> addr \<Rightarrow> error + ndarray option" where
  "result_of (Inl e) = Inl e"
| "result_of (Inr (h, r)) = Inr (load h r)"

text \<open>Two dummy arguments of the same shape.\<close>

fun same_shape :: "'a core_arg \<Rightarrow> 'a core_arg \<Rightarrow> bool" where
  "same_shape (Core1 d) (Core1 d') = (length d = length d')"
| "same_shape (Core2 m) (Core2 m') = (shape m = shape m')"
| "same_shape _ _ = False"

section \<open>The result of the predictor\<close>

lemma hd_single: "length xs = Suc 0 \<Longrightarrow> hd xs = xs ! 0"
  by (cases xs) auto

lemma map2_nth: "length as = length bs \<Longrightarrow> map2 f as bs = map (\<lambda>i. f (as ! i) (bs ! i)) [0..<length as]"
  by (rule nth_equalityI) auto

lemma broadcast2_ok:
  "compat (length as) y \<Longrightarrow>
   broadcast2 f (Vec as) y = Inr (Vec (map (\<lambda>i. f (as ! i) (pick y i)) [0..<length as]))"
  by (cases y) (auto simp: map2_nth hd_single intro!: nth_equalityI)

lemma compat_elementwise: "compat n (elementwise g z) = compat n z"
  by (cases z) auto

lemma pick_elementwise: "compat n z \<Longrightarrow> i < n \<Longrightarrow> pick (elementwise g z) i = g (pick z i)"
  by (cases z) (auto simp: hd_single)

lemma column_value_ok:
  assumes "compat (length x) y" "compat (length x) z"
  shows "column_value rnd t x y z =
         Inr (Vec (map (\<lambda>i. formula rnd t (x ! i) (pick y i) (pick z i)) [0..<length x]))"
proof -
  let ?n = "length x"
  let ?a = "map (\<lambda>i. fadd rnd (i2f rnd (sint (of_nat t * (x ! i) ^ 2))) (pick y i)) [0..<?n]"
  let ?z2 = "elementwise (fmul rnd (i2f rnd 2)) z"
  have a: "broadcast2 (fadd rnd) (Vec (map (\<lambda>v. i2f rnd (sint (of_nat t * v ^ 2))) x)) y = Inr (Vec ?a)"
    using broadcast2_ok [of "map (\<lambda>v. i2f rnd (sint (of_nat t * v ^ 2))) x" y "fadd rnd"] assms(1)
    by simp
  have "compat (length ?a) ?z2"
    using assms(2) by (simp add: compat_elementwise)
  then have b: "broadcast2 (fsub rnd) (Vec ?a) ?z2
      = Inr (Vec (map (\<lambda>i. fsub rnd (?a ! i) (pick ?z2 i)) [0..<?n]))"
    using broadcast2_ok [of ?a ?z2 "fsub rnd"] by simp
  have c: "map (\<lambda>i. fsub rnd (?a ! i) (pick ?z2 i)) [0..<?n]
      = map (\<lambda>i. fsub rnd (fadd rnd (i2f rnd (sint (of_nat t * (x ! i) ^ 2))) (pick y i))
                           (fmul rnd (i2f rnd 2) (pick z i))) [0..<?n]"
    using assms(2) by (auto simp: pick_elementwise)
  show ?thesis
    by (simp only: column_value_def a sum.case b c) (simp add: formula_def o_def)
qed

lemma set_column_ok:
  "length rs = n \<Longrightarrow>
   set_column (Mat c rs) t (Vec (map g [0..<n])) = Inr (Mat c (map (\<lambda>i. (rs ! i)[t := g i]) [0..<n]))"
  by (auto intro!: nth_equalityI)

lemma predict_loop_ok:
  assumes "compat (length x) y" "compat (length x) z"
  shows "length rs = length x \<Longrightarrow>
     predict_loop rnd x y z ts (Mat c rs) =
     Inr (Mat c (map (\<lambda>i. fold (\<lambda>t r. r[t := formula rnd t (x ! i) (pick y i) (pick z i)]) ts (rs ! i))
                     [0..<length x]))"
proof (induction ts arbitrary: rs)
  case Nil
  then show ?case by (auto intro!: nth_equalityI)
next
  case (Cons t ts)
  let ?F = "\<lambda>t i. formula rnd t (x ! i) (pick y i) (pick z i)"
  let ?rs' = "map (\<lambda>i. (rs ! i)[t := ?F t i]) [0..<length x]"
  have len: "length ?rs' = length x" by simp
  have step: "set_column (Mat c rs) t (Vec (map (?F t) [0..<length x])) = Inr (Mat c ?rs')"
    using Cons.prems by (rule set_column_ok)
  have "predict_loop rnd x y z (t # ts) (Mat c rs) = predict_loop rnd x y z ts (Mat c ?rs')"
    by (simp only: predict_loop.simps column_value_ok [OF assms] sum.case step)
  also have "\<dots> = Inr (Mat c (map (\<lambda>i. fold (\<lambda>t r. r[t := ?F t i]) ts (?rs' ! i)) [0..<length x]))"
    by (rule Cons.IH [OF len])
  also have "map (\<lambda>i. fold (\<lambda>t r. r[t := ?F t i]) ts (?rs' ! i)) [0..<length x]
           = map (\<lambda>i. fold (\<lambda>t r. r[t := ?F t i]) (t # ts) (rs ! i)) [0..<length x]"
    by (rule map_cong) auto
  finally show ?case .
qed

lemma fold_update_upt:
  "n \<le> length r \<Longrightarrow> fold (\<lambda>t r. r[t := g t]) [0..<n] r = map g [0..<n] @ drop n r"
proof (induction n)
  case 0
  then show ?case by simp
next
  case (Suc n)
  then have "n < length r" by simp
  then have "(map g [0..<n] @ drop n r)[n := g n] = map g [0..<n] @ g n # drop (Suc n) r"
    by (simp add: list_update_append upd_conv_take_nth_drop)
  with Suc show ?case by simp
qed

lemma predict_over_time_ok:
  assumes "compat (length x) y" "compat (length x) z"
  shows "predict_over_time rnd x y z overlay =
     Inr (Mat 15 (map (\<lambda>i. map (\<lambda>t. fmul rnd (if overlay then 3 / 2 else 1)
                                     (formula rnd t (x ! i) (pick y i) (pick z i))) [0..<15])
                      [0..<length x]))"
proof -
  have "predict_loop rnd x y z [0..<15] (zeros (length x) 15) =
     Inr (Mat 15 (map (\<lambda>i. map (\<lambda>t. formula rnd t (x ! i) (pick y i) (pick z i)) [0..<15]) [0..<length x]))"
    unfolding zeros_def
    by (subst predict_loop_ok [OF assms]) (simp_all add: fold_update_upt)
  then show ?thesis
    by (simp add: predict_over_time_def o_def)
qed

lemma predict_step_fail:
  assumes "length rs = length x" "\<not> (compat (length x) y \<and> compat (length x) z)"
  shows "(case column_value rnd t x y z of Inl e \<Rightarrow> Inl e | Inr v \<Rightarrow> set_column (Mat c rs) t v) = Inl ValueError"
  using assms
  by (cases y; cases z) (auto simp: column_value_def split: if_splits)

lemma predict_over_time_fail:
  assumes "\<not> (compat (length x) y \<and> compat (length x) z)"
  shows "predict_over_time rnd x y z overlay = Inl ValueError"
proof -
  have "[0..<15] = 0 # [1..<15]" by (simp add: upt_conv_Cons)
  then have "predict_loop rnd x y z [0..<15] (zeros (length x) 15) = Inl ValueError"
    using predict_step_fail [where rs = "replicate (length x) (replicate 15 0)" and x = x and y = y and z = z
         and rnd = rnd and t = 0 and c = 15] assms
    by (auto simp: zeros_def split: sum.splits)
  then show ?thesis by (simp add: predict_over_time_def)
qed

section \<open>The claims on \<^verbatim>\<open>predict_over_time\<close>\<close>

lemma pick_Vec_eq: "length y = n \<Longrightarrow> i < n \<Longrightarrow> pick (Vec y) i = y ! i"
  by (auto simp: hd_single)

lemma predict_over_time_equal_lengths:
  assumes "length y = length x" "length z = length x"
  shows "predict_over_time rnd x (Vec y) (Vec z) overlay =
     Inr (Mat 15 (map (\<lambda>i. map (\<lambda>t. fmul rnd (if overlay then 3 / 2 else 1)
                                     (formula rnd t (x ! i) (y ! i) (z ! i))) [0..<15])
                      [0..<length x]))"
proof -
  have "map (\<lambda>i. map (\<lambda>t. fmul rnd (if overlay then 3 / 2 else 1)
              (formula rnd t (x ! i) (pick (Vec y) i) (pick (Vec z) i))) [0..<15]) [0..<length x]
      = map (\<lambda>i. map (\<lambda>t. fmul rnd (if overlay then 3 / 2 else 1)
              (formula rnd t (x ! i) (y ! i) (z ! i))) [0..<15]) [0..<length x]"
    using assms by (intro map_cong refl) (simp add: pick_Vec_eq del: pick.simps)
  moreover have "compat (length x) (Vec y)" "compat (length x) (Vec z)"
    using assms by simp_all
  ultimately show ?thesis
    by (simp only: predict_over_time_ok)
qed

text \<open>
  Claim C1. For \<^verbatim>\<open>x\<close>, \<^verbatim>\<open>y\<close>, \<^verbatim>\<open>z\<close> of one length \<open>N\<close>, the call returns a matrix, and for
  every element index \<open>i < N\<close> and every time step \<open>t < 15\<close> its entry at row \<open>i\<close>,
  column \<open>t\<close> is \<^verbatim>\<open>adj * (t * x[i]**2 + y[i] - 2*z[i] - 2*t)\<close>, where \<^verbatim>\<open>adj\<close> is 1.5
  when \<^verbatim>\<open>overlay\<close> is true and 1.0 otherwise. The right-hand side is evaluated in the
  arithmetic of the elements (\<^verbatim>\<open>int64\<close> for \<^verbatim>\<open>t * x[i]**2\<close>, \<^verbatim>\<open>float64\<close> after it), for
  every rounding.
\<close>

theorem C1_formula:
  assumes "length y = length x" "length z = length x" "i < length x" "t < 15"
  shows "\<exists>m. predict_over_time rnd x (Vec y) (Vec z) overlay = Inr m \<and>
             rows m ! i ! t =
               fmul rnd (if overlay then 3 / 2 else 1) (formula rnd t (x ! i) (y ! i) (z ! i))"
  using assms(3,4) by (simp add: predict_over_time_equal_lengths [OF assms(1,2)])

text \<open>At \<^verbatim>\<open>x = [2, 3]\<close>, \<^verbatim>\<open>y = [1.0, 0.5]\<close>, \<^verbatim>\<open>z = [0.5, 0.0]\<close>, \<^verbatim>\<open>overlay = True\<close>, with
  exact arithmetic: row 1, column 2 holds \<open>1.5 * (2 * 9 + 0.5 - 0 - 4) = 21.75\<close>.\<close>

theorem C1_formula_witness:
  "length [1, 1 / 2 :: real] = length [2, 3 :: i8] \<and> length [1 / 2, 0 :: real] = length [2, 3 :: i8] \<and>
   (1 :: nat) < length [2, 3 :: i8] \<and> (2 :: nat) < 15 \<and>
   (\<exists>m. predict_over_time id [2, 3] (Vec [1, 1 / 2]) (Vec [1 / 2, 0]) True = Inr m \<and>
        rows m ! 1 ! 2 = 87 / 4)"
  using C1_formula [of "[1, 1 / 2]" "[2, 3]" "[1 / 2, 0]" 1 2 id True]
  by (simp add: formula_def fadd_def fsub_def fmul_def i2f_def)

text \<open>
  Claim C2. For every \<open>N \<ge> 0\<close> and \<^verbatim>\<open>x\<close>, \<^verbatim>\<open>y\<close>, \<^verbatim>\<open>z\<close> of length \<open>N\<close>, the call returns a
  matrix of shape \<open>(N, 15)\<close>: \<open>N\<close> rows, each of 15 entries; also for \<open>N = 0\<close>.
\<close>

theorem C2_shape:
  assumes "length y = length x" "length z = length x"
  shows "\<exists>m. predict_over_time rnd x (Vec y) (Vec z) overlay = Inr m \<and>
             shape m = (length x, 15) \<and> well_shaped m"
  by (simp add: predict_over_time_equal_lengths [OF assms] shape_def well_shaped_def list_all_iff)

text \<open>The empty case, and two elements.\<close>

theorem C2_shape_witness:
  "length ([] :: real list) = length ([] :: i8 list) \<and>
   (\<exists>m. predict_over_time id [] (Vec []) (Vec []) False = Inr m \<and> shape m = (0, 15) \<and> well_shaped m) \<and>
   length [1, 2 :: real] = length [5, 7 :: i8] \<and>
   (\<exists>m. predict_over_time id [5, 7] (Vec [1, 2]) (Vec [1, 2]) False = Inr m \<and> shape m = (2, 15) \<and> well_shaped m)"
  using C2_shape [of "[]" "[]" "[]" id False] C2_shape [of "[1, 2]" "[5, 7]" "[1, 2]" id False]
  by (simp add: numeral_2_eq_2)

text \<open>
  Claim C4. For \<^verbatim>\<open>x\<close>, \<^verbatim>\<open>y\<close>, \<^verbatim>\<open>z\<close> of one length, the matrix returned with
  \<^verbatim>\<open>overlay=True\<close> is, entry by entry, 1.5 times the matrix returned with
  \<^verbatim>\<open>overlay=False\<close>. The matrix with \<^verbatim>\<open>overlay=False\<close> is \<^verbatim>\<open>1.0 * out\<close>; that this is
  \<^verbatim>\<open>out\<close> itself needs the rounding to leave a rounded value as it is, which every
  rounding to a floating-point format does.
\<close>

theorem C4_overlay:
  assumes "\<forall>v. rnd (rnd v) = rnd v" "length y = length x" "length z = length x"
  shows "\<exists>mt mf. predict_over_time rnd x (Vec y) (Vec z) True = Inr mt \<and>
                 predict_over_time rnd x (Vec y) (Vec z) False = Inr mf \<and>
                 shape mt = shape mf \<and>
                 (\<forall>i < length x. \<forall>t < 15. rows mt ! i ! t = fmul rnd (3 / 2) (rows mf ! i ! t))"
  using assms(1)
  by (simp add: predict_over_time_equal_lengths [OF assms(2,3)] shape_def fmul_def formula_def fsub_def)

text \<open>At \<^verbatim>\<open>x = [3]\<close>, \<^verbatim>\<open>y = [0.25]\<close>, \<^verbatim>\<open>z = [1.0]\<close>, time step 1: \<open>9 + 0.25 - 2 - 2 = 5.25\<close>
  without the overlay.\<close>

theorem C4_overlay_witness:
  "(\<forall>v :: real. id (id v) = id v) \<and> length [1 / 4 :: real] = length [3 :: i8] \<and>
   length [1 :: real] = length [3 :: i8] \<and>
   (\<exists>mt mf. predict_over_time id [3] (Vec [1 / 4]) (Vec [1]) True = Inr mt \<and>
                 predict_over_time id [3] (Vec [1 / 4]) (Vec [1]) False = Inr mf \<and>
                 shape mt = shape mf \<and>
                 rows mt ! 0 ! 1 = fmul id (3 / 2) (rows mf ! 0 ! 1) \<and> rows mf ! 0 ! 1 = 21 / 4)"
proof -
  have idem: "\<forall>v :: real. id (id v) = id v" by simp
  have ly: "length [1 / 4 :: real] = length [3 :: i8]" and lz: "length [1 :: real] = length [3 :: i8]"
    by simp_all
  from C4_overlay [OF idem ly lz] obtain mt mf where
    mt: "predict_over_time id [3] (Vec [1 / 4]) (Vec [1]) True = Inr mt" and
    mf: "predict_over_time id [3] (Vec [1 / 4]) (Vec [1]) False = Inr mf" and
    sh: "shape mt = shape mf" and
    all: "\<forall>i < length [3 :: i8]. \<forall>t < 15. rows mt ! i ! t = fmul id (3 / 2) (rows mf ! i ! t)"
    by blast
  from all have e: "rows mt ! 0 ! 1 = fmul id (3 / 2) (rows mf ! 0 ! 1)" by simp
  have "rows mf ! 0 ! 1 = 21 / 4"
    using mf by (auto simp: predict_over_time_equal_lengths formula_def fadd_def fsub_def fmul_def i2f_def)
  with idem ly lz mt mf sh e show ?thesis by blast
qed

text \<open>
  Claim C10 says that the result has \<open>N\<close> rows whatever the lengths of \<^verbatim>\<open>y\<close> and \<^verbatim>\<open>z\<close>.
  With \<^verbatim>\<open>x\<close> of length 3 and \<^verbatim>\<open>y\<close> of length 2 the call returns no matrix: the
  addition \<^verbatim>\<open>t * x ** 2 + y\<close> raises \<^verbatim>\<open>ValueError\<close>.
\<close>

theorem C10_counterexample:
  "predict_over_time id [1, 2, 3] (Vec [0, 0]) (Vec [0, 0, 0]) False = Inl ValueError"
  by (simp add: predict_over_time_fail)

text \<open>
  Claim C10, amended. Whenever \<^verbatim>\<open>predict_over_time\<close> returns, its result has shape
  \<open>(N, 15)\<close> with \<open>N\<close> the length of \<^verbatim>\<open>x\<close>. It returns when each of \<^verbatim>\<open>y\<close> and \<^verbatim>\<open>z\<close> is a
  scalar, has length 1 or has length \<open>N\<close> (so scalar and length-1 \<^verbatim>\<open>y\<close>, \<^verbatim>\<open>z\<close> are
  accepted by broadcasting); for every other length of \<^verbatim>\<open>y\<close> or \<^verbatim>\<open>z\<close> it raises
  \<^verbatim>\<open>ValueError\<close>.
\<close>

theorem C10_rows:
  "(compat (length x) y \<and> compat (length x) z \<longrightarrow>
      (\<exists>m. predict_over_time rnd x y z overlay = Inr m \<and> shape m = (length x, 15) \<and> well_shaped m)) \<and>
   (\<not> (compat (length x) y \<and> compat (length x) z) \<longrightarrow>
      predict_over_time rnd x y z overlay = Inl ValueError)"
  by (auto simp: predict_over_time_ok predict_over_time_fail shape_def well_shaped_def list_all_iff)

text \<open>A scalar \<^verbatim>\<open>y\<close> and a length-1 \<^verbatim>\<open>z\<close> against three elements; and \<^verbatim>\<open>y\<close> of length 3
  against one element.\<close>

theorem C10_rows_witness:
  "compat (length [1, 2, 3 :: i8]) (Scalar (1 :: real)) \<and> compat (length [1, 2, 3 :: i8]) (Vec [2 :: real]) \<and>
   (\<exists>m. predict_over_time id [1, 2, 3] (Scalar 1) (Vec [2]) True = Inr m \<and> shape m = (3, 15) \<and> well_shaped m) \<and>
   \<not> compat (length [1 :: i8]) (Vec [1, 2, 3 :: real]) \<and>
   predict_over_time id [1] (Vec [1, 2, 3]) (Scalar 0) False = Inl ValueError"
  using C10_rows [of "[1, 2, 3]" "Scalar 1" "Vec [2]" id True] C10_rows [of "[1]" "Vec [1, 2, 3]" "Scalar 0" id False]
  by (simp add: numeral_3_eq_3)

lemma sint_of_nat_small: "n < 2 ^ 63 \<Longrightarrow> sint (of_nat n :: i8) = int n"
proof -
  assume "n < 2 ^ 63"
  then have "int n < 2 ^ 63" by (metis of_nat_less_iff of_nat_numeral of_nat_power)
  then have "signed_take_bit 63 (int n) = int n"
    by (intro signed_take_bit_int_eq_self) simp_all
  then show ?thesis by (simp add: signed_of_nat)
qed

text \<open>
  Claim C5. For \<^verbatim>\<open>x = [2]\<close>, \<^verbatim>\<open>y = [1.0]\<close>, \<^verbatim>\<open>z = [0.5]\<close>, \<^verbatim>\<open>overlay = False\<close> the result is
  the single row whose entry at time step \<open>t\<close> is \<open>2 * t\<close>: 0.0 at \<open>t = 0\<close>, 2.0 at
  \<open>t = 1\<close>, and so on by steps of 2.0 up to 28.0 at \<open>t = 14\<close>. All the values met
  on the way are integers below 58 (and the product \<open>2 * 0.5\<close>), so the statement
  needs of the rounding only that it is exact on the integers a \<^verbatim>\<open>float64\<close> holds
  exactly, those of magnitude up to \<open>2 ^ 53\<close>.
\<close>

theorem C5_example:
  assumes "\<forall>k :: int. \<bar>k\<bar> \<le> 2 ^ 53 \<longrightarrow> rnd (of_int k) = of_int k"
  shows "predict_over_time rnd [2] (Vec [1]) (Vec [1 / 2]) False =
         Inr (Mat 15 [[0, 2, 4, 6, 8, 10, 12, 14, 16, 18, 20, 22, 24, 26, 28]])"
proof -
  have R: "rnd (real n) = real n" if "n \<le> 100" for n
  proof -
    have "\<bar>int n\<bar> \<le> 2 ^ 53" using that by simp
    with assms have "rnd (of_int (int n)) = of_int (int n)" by blast
    then show ?thesis by simp
  qed
  have F: "fmul rnd 1 (formula rnd t 2 1 (1 / 2)) = real (2 * t)" if "t < 15" for t
  proof -
    have "(of_nat t * 2 ^ 2 :: i8) = of_nat (4 * t)" by simp
    moreover have "sint (of_nat (4 * t) :: i8) = int (4 * t)"
      using that by (intro sint_of_nat_small) simp
    ultimately have "sint (of_nat t * 2 ^ 2 :: i8) = int (4 * t)" by (simp only:)
    then have "i2f rnd (sint (of_nat t * 2 ^ 2 :: i8)) = rnd (real (4 * t))"
      by (simp only: i2f_def of_int_of_nat_eq)
    then have a: "i2f rnd (sint (of_nat t * 2 ^ 2 :: i8)) = real (4 * t)"
      using R [of "4 * t"] that by simp
    have b: "fadd rnd (real (4 * t)) 1 = real (4 * t + 1)"
      using R [of "4 * t + 1"] that by (simp add: fadd_def add.commute)
    have c: "fmul rnd (i2f rnd 2) (1 / 2) = 1"
      using R [of 2] R [of 1] by (simp add: fmul_def i2f_def)
    have d: "fsub rnd (real (4 * t + 1)) 1 = real (4 * t)"
      using R [of "4 * t"] that by (simp add: fsub_def)
    have e: "i2f rnd (2 * int t) = real (2 * t)"
      using R [of "2 * t"] that by (simp add: i2f_def)
    have f: "fsub rnd (real (4 * t)) (real (2 * t)) = real (2 * t)"
      using R [of "2 * t"] that by (simp add: fsub_def)
    have g: "fmul rnd 1 (real (2 * t)) = real (2 * t)"
      using R [of "2 * t"] that by (simp add: fmul_def)
    show ?thesis
      unfolding formula_def a b c d e f g ..
  qed
  have "map (\<lambda>t. fmul rnd (if False then 3 / 2 else 1) (formula rnd t ([2] ! 0) ([1] ! 0) ([1 / 2] ! 0))) [0..<15]
      = map (\<lambda>t. real (2 * t)) [0..<15]"
    by (intro map_cong refl) (simp add: F)
  also have "\<dots> = [0, 2, 4, 6, 8, 10, 12, 14, 16, 18, 20, 22, 24, 26, 28]"
  proof -
    have "[0..<15] = [0, 1, 2, 3, 4, 5, 6, 7, 8, 9, 10, 11, 12, 13, 14 :: nat]" by code_simp
    then show ?thesis by simp
  qed
  finally show ?thesis
    by (simp add: predict_over_time_equal_lengths)
qed

text \<open>With exact arithmetic, which leaves every integer as it is.\<close>

theorem C5_example_witness:
  "predict_over_time id [2] (Vec [1]) (Vec [1 / 2]) False =
     Inr (Mat 15 [[0, 2, 4, 6, 8, 10, 12, 14, 16, 18, 20, 22, 24, 26, 28]])"
  using C5_example [of id] by simp

section \<open>The vectorised variant and the variants compared\<close>

lemma kernel_value_formula: "t < 15 \<Longrightarrow> kernel_value rnd t x y z = formula rnd t x y z"
proof -
  assume "t < 15"
  then have "2 * t < 2 ^ 63" by simp
  then have "sint (of_nat (2 * t) :: i8) = int (2 * t)" by (rule sint_of_nat_small)
  then show ?thesis by (simp add: kernel_value_def formula_def)
qed

lemma kernel_loop_fold:
  "kernel_loop rnd x y z adj ts out =
   fold (\<lambda>t r. r[t := fmul rnd adj (kernel_value rnd t x y z)]) ts out"
  by (induction ts arbitrary: out) simp_all

lemma fast_predict_over_time_kernel_eq:
  "fast_predict_over_time_kernel rnd x y z overlay dummy out =
   map (\<lambda>t. fmul rnd (if overlay then 3 / 2 else 1) (kernel_value rnd t x y z)) [0..<length out]"
  by (simp add: fast_predict_over_time_kernel_def kernel_loop_fold fold_update_upt)

lemma gufunc_loop_append:
  "gufunc_loop rnd x y z overlay dummy (is @ js) out =
   gufunc_loop rnd x y z overlay dummy js (gufunc_loop rnd x y z overlay dummy is out)"
  by (induction "is" arbitrary: out) simp_all

lemma gufunc_loop_upt:
  assumes "\<forall>r \<in> set out. length r = s"
  shows "n \<le> length out \<Longrightarrow>
     gufunc_loop rnd x y z overlay dummy [0..<n] out =
     map (gufunc_row rnd x y z overlay s) [0..<n] @ drop n out"
proof (induction n)
  case 0
  then show ?case by simp
next
  case (Suc n)
  then have n: "n < length out" by simp
  then have len: "length (out ! n) = s" using assms by simp
  have nth: "(map (gufunc_row rnd x y z overlay s) [0..<n] @ drop n out) ! n = out ! n"
    using n by (simp add: nth_append)
  have upd: "(map (gufunc_row rnd x y z overlay s) [0..<n] @ drop n out)[n := v]
      = map (gufunc_row rnd x y z overlay s) [0..<n] @ v # drop (Suc n) out" for v
    using n by (simp add: list_update_append upd_conv_take_nth_drop)
  have "gufunc_loop rnd x y z overlay dummy [0..<Suc n] out =
        gufunc_loop rnd x y z overlay dummy [n] (map (gufunc_row rnd x y z overlay s) [0..<n] @ drop n out)"
    using Suc by (simp add: gufunc_loop_append)
  also have "\<dots> = map (gufunc_row rnd x y z overlay s) [0..<n] @ gufunc_row rnd x y z overlay s n # drop (Suc n) out"
    by (simp only: gufunc_loop.simps nth upd fast_predict_over_time_kernel_eq len gufunc_row_def)
  finally show ?case by simp
qed

lemma fast_predict_over_time_ok:
  assumes "loop_length x y z dummy = Inr n"
  shows "fast_predict_over_time rnd x y z overlay dummy =
         Inr (Mat (core_len dummy) (map (gufunc_row rnd x y z overlay (core_len dummy)) [0..<n]))"
  using assms gufunc_loop_upt [of "replicate n (replicate (core_len dummy) 0)" "core_len dummy" n rnd x y z overlay dummy]
  by (simp add: fast_predict_over_time_def Let_def)

lemma loop_length_equal:
  assumes "length y = length x" "length z = length x"
    "core_loop_dim dummy = None \<or> core_loop_dim dummy = Some (length x)"
  shows "loop_length x (Vec y) (Vec z) dummy = Inr (length x)"
  using assms by (auto simp: loop_length_def)

lemma fast_predict_over_time_equal_lengths:
  assumes "length y = length x" "length z = length x"
    "core_loop_dim dummy = None \<or> core_loop_dim dummy = Some (length x)"
  shows "fast_predict_over_time rnd x (Vec y) (Vec z) overlay dummy =
     Inr (Mat (core_len dummy)
           (map (\<lambda>i. map (\<lambda>t. fmul rnd (if overlay then 3 / 2 else 1)
                                 (kernel_value rnd t (x ! i) (y ! i) (z ! i))) [0..<core_len dummy])
                [0..<length x]))"
proof -
  have "map (gufunc_row rnd x (Vec y) (Vec z) overlay (core_len dummy)) [0..<length x]
      = map (\<lambda>i. map (\<lambda>t. fmul rnd (if overlay then 3 / 2 else 1)
                                 (kernel_value rnd t (x ! i) (y ! i) (z ! i))) [0..<core_len dummy])
                [0..<length x]"
    using assms(1,2) by (intro map_cong refl) (simp add: gufunc_row_def pick_Vec_eq del: pick.simps)
  then show ?thesis
    by (simp only: fast_predict_over_time_ok [OF loop_length_equal [OF assms]])
qed

text \<open>
  Claim C8. For the vectorised variant the number of time steps is the length \<open>s\<close>
  of the core axis of the fifth argument, not 15: for \<^verbatim>\<open>x\<close>, \<^verbatim>\<open>y\<close>, \<^verbatim>\<open>z\<close> of one length
  \<open>N\<close> and a dummy array that is one-dimensional of length \<open>s\<close> (or two-dimensional
  with \<open>N\<close> rows and \<open>s\<close> columns, as the notebook's \<^verbatim>\<open>res\<close>), the result has shape
  \<open>(N, s)\<close> and its entry at \<open>(i, t)\<close> is the kernel's value for time step \<open>t < s\<close>. So
  there are 15 columns exactly when the caller passes 15.
\<close>

theorem C8_time_steps:
  assumes "length y = length x" "length z = length x"
    "core_loop_dim dummy = None \<or> core_loop_dim dummy = Some (length x)"
  shows "\<exists>m. fast_predict_over_time rnd x (Vec y) (Vec z) overlay dummy = Inr m \<and>
             shape m = (length x, core_len dummy) \<and> well_shaped m \<and>
             (\<forall>i < length x. \<forall>t < core_len dummy.
                 rows m ! i ! t =
                   fmul rnd (if overlay then 3 / 2 else 1) (kernel_value rnd t (x ! i) (y ! i) (z ! i)))"
  by (simp add: fast_predict_over_time_equal_lengths [OF assms] shape_def well_shaped_def list_all_iff)

text \<open>A dummy array of length 3 gives three time steps: row 1, column 2 holds
  \<open>2 * 9 + 0.5 - 0 - 4 = 14.5\<close>.\<close>

theorem C8_time_steps_witness:
  "length [1, 1 / 2 :: real] = length [2, 3 :: i8] \<and> length [1 / 2, 0 :: real] = length [2, 3 :: i8] \<and>
   core_loop_dim (Core1 [7, 7, 7 :: real]) = None \<and>
   (\<exists>m. fast_predict_over_time id [2, 3] (Vec [1, 1 / 2]) (Vec [1 / 2, 0]) False (Core1 [7, 7, 7]) = Inr m \<and>
        shape m = (2, 3) \<and> well_shaped m \<and> rows m ! 1 ! 2 = 29 / 2)"
proof -
  have h: "length [1, 1 / 2 :: real] = length [2, 3 :: i8]" "length [1 / 2, 0 :: real] = length [2, 3 :: i8]"
    "core_loop_dim (Core1 [7, 7, 7 :: real]) = None \<or>
     core_loop_dim (Core1 [7, 7, 7 :: real]) = Some (length [2, 3 :: i8])"
    by simp_all
  from C8_time_steps [OF h, of id False] obtain m where
    m: "fast_predict_over_time id [2, 3] (Vec [1, 1 / 2]) (Vec [1 / 2, 0]) False (Core1 [7, 7, 7]) = Inr m" and
    s: "shape m = (length [2, 3 :: i8], core_len (Core1 [7, 7, 7 :: real]))" and w: "well_shaped m" and
    e: "\<forall>i < length [2, 3 :: i8]. \<forall>t < core_len (Core1 [7, 7, 7 :: real]).
          rows m ! i ! t = fmul id (if False then 3 / 2 else 1)
             (kernel_value id t ([2, 3] ! i) ([1, 1 / 2] ! i) ([1 / 2, 0] ! i))"
    by blast
  from e have "rows m ! 1 ! 2 = fmul id 1 (kernel_value id 2 3 (1 / 2) 0)" by simp
  then have "rows m ! 1 ! 2 = 29 / 2"
    by (simp add: kernel_value_def fadd_def fsub_def fmul_def i2f_def)
  with m s w show ?thesis by auto
qed

text \<open>
  Claim C3. For the same \<^verbatim>\<open>x\<close>, \<^verbatim>\<open>y\<close>, \<^verbatim>\<open>z\<close> (of one length) and \<^verbatim>\<open>overlay\<close>, the direct
  function, the compiled \<^verbatim>\<open>jitted_func\<close>, the vectorised \<^verbatim>\<open>fast_predict_over_time\<close>
  called with a dummy array of 15 time steps, and the two deferred calls once
  \<^verbatim>\<open>compute\<close> runs them, all return the same matrix. The values are equal, not
  only close: every variant applies the same operations in the same order, whatever
  the rounding.
\<close>

theorem C3_variants:
  assumes "length y = length x" "length z = length x"
    "core_loop_dim dummy = None \<or> core_loop_dim dummy = Some (length x)" "core_len dummy = 15"
  shows "\<exists>m. predict_over_time rnd x (Vec y) (Vec z) overlay = Inr m \<and>
             jitted_func rnd x (Vec y) (Vec z) overlay = Inr m \<and>
             fast_predict_over_time rnd x (Vec y) (Vec z) overlay dummy = Inr m \<and>
             compute (fast_predict_over_time_delayed rnd x (Vec y) (Vec z) overlay dummy) = Inr m \<and>
             compute (fast_jitted_func rnd x (Vec y) (Vec z) overlay) = Inr m"
proof -
  have j: "jitted_func rnd x (Vec y) (Vec z) overlay = predict_over_time rnd x (Vec y) (Vec z) overlay"
    by (simp only: jitted_func_def predict_over_time_def)
  have "map (\<lambda>i. map (\<lambda>t. fmul rnd (if overlay then 3 / 2 else 1)
                                 (kernel_value rnd t (x ! i) (y ! i) (z ! i))) [0..<15]) [0..<length x]
      = map (\<lambda>i. map (\<lambda>t. fmul rnd (if overlay then 3 / 2 else 1)
                                 (formula rnd t (x ! i) (y ! i) (z ! i))) [0..<15]) [0..<length x]"
    by (intro map_cong refl) (simp add: kernel_value_formula)
  then have f: "fast_predict_over_time rnd x (Vec y) (Vec z) overlay dummy
      = predict_over_time rnd x (Vec y) (Vec z) overlay"
    by (simp only: fast_predict_over_time_equal_lengths [OF assms(1-3)] assms(4)
          predict_over_time_equal_lengths [OF assms(1,2)])
  show ?thesis
    by (simp add: j f fast_predict_over_time_delayed_def fast_jitted_func_def
          predict_over_time_equal_lengths [OF assms(1,2)])
qed

text \<open>With the dummy array of the notebook, \<^verbatim>\<open>np.zeros((n, 15))\<close>, for one element.\<close>

theorem C3_variants_witness:
  "length [1 :: real] = length [2 :: i8] \<and> length [1 / 2 :: real] = length [2 :: i8] \<and>
   core_loop_dim (Core2 (zeros 1 15)) = Some (length [2 :: i8]) \<and>
   core_len (Core2 (zeros 1 15)) = 15 \<and>
   (\<exists>m. predict_over_time id [2] (Vec [1]) (Vec [1 / 2]) True = Inr m \<and>
        jitted_func id [2] (Vec [1]) (Vec [1 / 2]) True = Inr m \<and>
        fast_predict_over_time id [2] (Vec [1]) (Vec [1 / 2]) True (Core2 (zeros 1 15)) = Inr m \<and>
        compute (fast_predict_over_time_delayed id [2] (Vec [1]) (Vec [1 / 2]) True (Core2 (zeros 1 15))) = Inr m \<and>
        compute (fast_jitted_func id [2] (Vec [1]) (Vec [1 / 2]) True) = Inr m)"
  using C3_variants [of "[1]" "[2]" "[1 / 2]" "Core2 (zeros 1 15)" id True]
  by (simp add: zeros_def)

section \<open>Calls on the store\<close>

lemma load_Some_less: "load h a = Some v \<Longrightarrow> a < length h"
  by (simp add: load_def split: if_splits)

lemma load_store_other: "a \<noteq> b \<Longrightarrow> load (store h b v) a = load h a"
  by (simp add: load_def store_def)

lemma load_store_same: "b < length h \<Longrightarrow> load (store h b v) b = Some v"
  by (simp add: load_def store_def)

lemma store_store: "store (store h a v) a w = store h a w"
  by (simp add: store_def)

lemma store_same: "load h a = Some v \<Longrightarrow> store h a v = h"
  by (auto simp: load_def store_def split: if_splits)

lemma load_int_eq: "load h a = Some (IntArray x) \<Longrightarrow> load_int h a = Inr x"
  by (simp add: load_int_def)

lemma load_float_eq: "load h a = Some (FloatArray y) \<Longrightarrow> load_float h a = Inr y"
  by (simp add: load_float_def)

lemma load_matrix_eq: "load h a = Some (FloatMatrix m) \<Longrightarrow> load_matrix h a = Inr m"
  by (simp add: load_matrix_def)

lemma load_core_store_other: "a \<noteq> b \<Longrightarrow> load_core (store h b v) a = load_core h a"
  by (simp add: load_core_def load_store_other)

lemma predict_loop_heap_eq:
  assumes "oa \<noteq> xa" "oa \<noteq> ya" "oa \<noteq> za"
  shows "load h xa = Some (IntArray x) \<Longrightarrow> load h ya = Some (FloatArray y) \<Longrightarrow>
         load h za = Some (FloatArray z) \<Longrightarrow> load h oa = Some (FloatMatrix out) \<Longrightarrow>
         predict_loop_heap rnd xa ya za oa ts h =
           (case predict_loop rnd x y z ts out of
              Inl e \<Rightarrow> Inl e
            | Inr out' \<Rightarrow> Inr (store h oa (FloatMatrix out')))"
proof (induction ts arbitrary: h out)
  case Nil
  then show ?case by (simp add: store_same)
next
  case (Cons t ts)
  note loads = Cons.prems
  show ?case
  proof (cases "column_value rnd t x y z")
    case (Inl e)
    then show ?thesis
      using loads by (simp add: load_int_eq load_float_eq load_matrix_eq)
  next
    case (Inr v)
    show ?thesis
    proof (cases "set_column out t v")
      case (Inl e)
      then show ?thesis
        using loads Inr by (simp add: load_int_eq load_float_eq load_matrix_eq)
    next
      case out': (Inr out')
      let ?h' = "store h oa (FloatMatrix out')"
      have oa: "oa < length h" using loads(4) by (rule load_Some_less)
      have "predict_loop_heap rnd xa ya za oa ts ?h' =
            (case predict_loop rnd x y z ts out' of
               Inl e \<Rightarrow> Inl e
             | Inr out'' \<Rightarrow> Inr (store ?h' oa (FloatMatrix out'')))"
        using assms loads oa
        by (intro Cons.IH) (simp_all add: load_store_other load_store_same)
      then show ?thesis
        using loads Inr out'
        by (simp add: load_int_eq load_float_eq load_matrix_eq store_store split: sum.splits)
    qed
  qed
qed

lemma predict_over_time_heap_eq:
  assumes "load h xa = Some (IntArray x)" "load h ya = Some (FloatArray y)"
    "load h za = Some (FloatArray z)"
  shows "predict_over_time_heap rnd h xa ya za overlay =
     (case predict_loop rnd x y z [0..<15] (zeros (length x) 15) of
        Inl e \<Rightarrow> Inl e
      | Inr out \<Rightarrow>
          Inr (h @ [FloatMatrix out, FloatMatrix (scale rnd (if overlay then 3 / 2 else 1) out)],
               Suc (length h)))"
proof -
  let ?z = "FloatMatrix (zeros (length x) 15)"
  let ?h1 = "h @ [?z]"
  have lt: "xa < length h" "ya < length h" "za < length h"
    using assms by (auto dest: load_Some_less)
  then have ne: "length h \<noteq> xa" "length h \<noteq> ya" "length h \<noteq> za" by simp_all
  have l1: "load ?h1 xa = Some (IntArray x)" "load ?h1 ya = Some (FloatArray y)"
    "load ?h1 za = Some (FloatArray z)" "load ?h1 (length h) = Some ?z"
    using assms lt by (simp_all add: load_def nth_append)
  have loop: "predict_loop_heap rnd xa ya za (length h) [0..<15] ?h1 =
      (case predict_loop rnd x y z [0..<15] (zeros (length x) 15) of
         Inl e \<Rightarrow> Inl e
       | Inr out' \<Rightarrow> Inr (store ?h1 (length h) (FloatMatrix out')))"
    by (rule predict_loop_heap_eq [OF ne l1])
  have st: "store ?h1 (length h) v = h @ [v]" for v
    by (simp add: store_def)
  show ?thesis
    using assms(1)
    by (simp add: predict_over_time_heap_def load_int_eq alloc_def loop st load_matrix_def load_def
          split: sum.splits)
qed

lemma result_of_predict_over_time_heap:
  assumes "load h xa = Some (IntArray x)" "load h ya = Some (FloatArray y)"
    "load h za = Some (FloatArray z)"
  shows "result_of (predict_over_time_heap rnd h xa ya za overlay) =
     (case predict_over_time rnd x y z overlay of
        Inl e \<Rightarrow> Inl e | Inr m \<Rightarrow> Inr (Some (FloatMatrix m)))"
  by (simp add: predict_over_time_heap_eq [OF assms] predict_over_time_def load_def nth_append
        split: sum.splits)

text \<open>
  Claim C6. The result of \<^verbatim>\<open>predict_over_time\<close> depends on nothing but its arguments:
  two calls, in any two stores and at any addresses, whose \<^verbatim>\<open>x\<close>, \<^verbatim>\<open>y\<close>, \<^verbatim>\<open>z\<close> have the
  same contents and whose \<^verbatim>\<open>overlay\<close> is the same, give the same outcome: the same
  error, or returned arrays of identical content.
\<close>

theorem C6_deterministic:
  assumes "load h xa = Some (IntArray x)" "load h ya = Some (FloatArray y)"
    "load h za = Some (FloatArray z)"
    "load h' xa' = Some (IntArray x)" "load h' ya' = Some (FloatArray y)"
    "load h' za' = Some (FloatArray z)"
  shows "result_of (predict_over_time_heap rnd h xa ya za overlay) =
         result_of (predict_over_time_heap rnd h' xa' ya' za' overlay)"
  by (simp only: result_of_predict_over_time_heap [OF assms(1-3)]
        result_of_predict_over_time_heap [OF assms(4-6)])

text \<open>The same arguments at other addresses of another store.\<close>

theorem C6_deterministic_witness:
  "load [IntArray [2], FloatArray (Vec [1]), FloatArray (Vec [1 / 2])] 0 = Some (IntArray [2]) \<and>
   load [IntArray [2], FloatArray (Vec [1]), FloatArray (Vec [1 / 2])] 1 = Some (FloatArray (Vec [1])) \<and>
   load [IntArray [2], FloatArray (Vec [1]), FloatArray (Vec [1 / 2])] 2 = Some (FloatArray (Vec [1 / 2])) \<and>
   load [FloatArray (Vec [1 / 2]), FloatMatrix (zeros 1 1), FloatArray (Vec [1]), IntArray [2]] 3 = Some (IntArray [2]) \<and>
   load [FloatArray (Vec [1 / 2]), FloatMatrix (zeros 1 1), FloatArray (Vec [1]), IntArray [2]] 2 = Some (FloatArray (Vec [1])) \<and>
   load [FloatArray (Vec [1 / 2]), FloatMatrix (zeros 1 1), FloatArray (Vec [1]), IntArray [2]] 0 = Some (FloatArray (Vec [1 / 2])) \<and>
   result_of (predict_over_time_heap id [IntArray [2], FloatArray (Vec [1]), FloatArray (Vec [1 / 2])] 0 1 2 True) =
   result_of (predict_over_time_heap id
       [FloatArray (Vec [1 / 2]), FloatMatrix (zeros 1 1), FloatArray (Vec [1]), IntArray [2]] 3 2 0 True)"
  using C6_deterministic [of "[IntArray [2], FloatArray (Vec [1]), FloatArray (Vec [1 / 2])]" 0 "[2]" 1 "Vec [1]" 2
      "Vec [1 / 2]" "[FloatArray (Vec [1 / 2]), FloatMatrix (zeros 1 1), FloatArray (Vec [1]), IntArray [2]]" 3 2 0 id True]
  by (simp add: load_def)

text \<open>
  Claim C7. A call of \<^verbatim>\<open>predict_over_time\<close> that returns leaves \<^verbatim>\<open>x\<close>, \<^verbatim>\<open>y\<close>, \<^verbatim>\<open>z\<close>, and
  every other array the store had, unchanged; the returned array is at an address
  the store did not have before the call, so it is none of the inputs and shares
  nothing with them. Its content is the matrix of the function on values.
\<close>

theorem C7_frame:
  assumes "load h xa = Some (IntArray x)" "load h ya = Some (FloatArray y)"
    "load h za = Some (FloatArray z)" "predict_over_time rnd x y z overlay = Inr m"
  shows "\<exists>h' r. predict_over_time_heap rnd h xa ya za overlay = Inr (h', r) \<and>
           load h' xa = Some (IntArray x) \<and> load h' ya = Some (FloatArray y) \<and>
           load h' za = Some (FloatArray z) \<and>
           (\<forall>a < length h. load h' a = load h a) \<and>
           load h r = None \<and> r \<noteq> xa \<and> r \<noteq> ya \<and> r \<noteq> za \<and>
           load h' r = Some (FloatMatrix m)"
proof -
  have lt: "xa < length h" "ya < length h" "za < length h"
    using assms(1-3) by (auto dest: load_Some_less)
  from assms(4) obtain out where
    out: "predict_loop rnd x y z [0..<15] (zeros (length x) 15) = Inr out" and
    m: "m = scale rnd (if overlay then 3 / 2 else 1) out"
    by (auto simp: predict_over_time_def split: sum.splits)
  have "predict_over_time_heap rnd h xa ya za overlay =
        Inr (h @ [FloatMatrix out, FloatMatrix m], Suc (length h))"
    by (simp add: predict_over_time_heap_eq [OF assms(1-3)] out m)
  moreover have "\<forall>a < length h. load (h @ [FloatMatrix out, FloatMatrix m]) a = load h a"
    by (simp add: load_def nth_append)
  moreover have "load h (Suc (length h)) = None" by (simp add: load_def)
  moreover have "load (h @ [FloatMatrix out, FloatMatrix m]) (Suc (length h)) = Some (FloatMatrix m)"
    by (simp add: load_def nth_append)
  ultimately show ?thesis
    using lt assms(1-3) by auto
qed

text \<open>A store of three arrays, one element each.\<close>

theorem C7_frame_witness:
  "load [IntArray [2], FloatArray (Vec [1]), FloatArray (Vec [1 / 2])] 0 = Some (IntArray [2]) \<and>
   load [IntArray [2], FloatArray (Vec [1]), FloatArray (Vec [1 / 2])] 1 = Some (FloatArray (Vec [1])) \<and>
   load [IntArray [2], FloatArray (Vec [1]), FloatArray (Vec [1 / 2])] 2 = Some (FloatArray (Vec [1 / 2])) \<and>
   (\<exists>m h' r. predict_over_time id [2] (Vec [1]) (Vec [1 / 2]) False = Inr m \<and>
      predict_over_time_heap id [IntArray [2], FloatArray (Vec [1]), FloatArray (Vec [1 / 2])] 0 1 2 False = Inr (h', r) \<and>
      load h' 0 = Some (IntArray [2]) \<and> load h' 1 = Some (FloatArray (Vec [1])) \<and>
      load h' 2 = Some (FloatArray (Vec [1 / 2])) \<and>
      load [IntArray [2], FloatArray (Vec [1]), FloatArray (Vec [1 / 2])] r = None \<and>
      r \<noteq> 0 \<and> r \<noteq> 1 \<and> r \<noteq> 2 \<and> load h' r = Some (FloatMatrix m))"
proof -
  let ?h = "[IntArray [2], FloatArray (Vec [1]), FloatArray (Vec [1 / 2])]"
  have l: "load ?h 0 = Some (IntArray [2])" "load ?h 1 = Some (FloatArray (Vec [1]))"
    "load ?h 2 = Some (FloatArray (Vec [1 / 2]))"
    by (simp_all add: load_def)
  obtain m where m: "predict_over_time id [2] (Vec [1]) (Vec [1 / 2]) False = Inr m"
    by (simp add: predict_over_time_equal_lengths)
  from C7_frame [OF l m] l m show ?thesis by blast
qed

lemma load_core_less: "load_core h a = Inr d \<Longrightarrow> a < length h"
  by (simp add: load_core_def load_def split: if_splits)

lemma load_core_append: "a < length h \<Longrightarrow> load_core (h @ [v]) a = load_core h a"
  by (simp add: load_core_def load_def nth_append)

lemma gufunc_loop_heap_eq:
  assumes "oa \<noteq> xa" "oa \<noteq> ya" "oa \<noteq> za" "oa \<noteq> da"
  shows "load h xa = Some (IntArray x) \<Longrightarrow> load h ya = Some (FloatArray y) \<Longrightarrow>
         load h za = Some (FloatArray z) \<Longrightarrow> load_core h da = Inr dummy \<Longrightarrow>
         load h oa = Some (FloatMatrix (Mat s rs)) \<Longrightarrow>
         gufunc_loop_heap rnd xa ya za overlay da oa is h =
           Inr (store h oa (FloatMatrix (Mat s (gufunc_loop rnd x y z overlay dummy is rs))))"
proof (induction "is" arbitrary: h rs)
  case Nil
  then show ?case by (simp add: store_same)
next
  case (Cons i "is")
  note loads = Cons.prems
  let ?rs' = "rs[i := fast_predict_over_time_kernel rnd (pick (Vec x) i) (pick y i) (pick z i)
                         overlay (core_row dummy i) (rs ! i)]"
  let ?h' = "store h oa (FloatMatrix (Mat s ?rs'))"
  have oa: "oa < length h" using loads(5) by (rule load_Some_less)
  have "gufunc_loop_heap rnd xa ya za overlay da oa is ?h' =
        Inr (store ?h' oa (FloatMatrix (Mat s (gufunc_loop rnd x y z overlay dummy is ?rs'))))"
    using assms loads oa
    by (intro Cons.IH) (simp_all add: load_store_other load_store_same load_core_store_other)
  then show ?case
    using loads
    by (simp add: load_int_eq load_float_eq load_matrix_eq store_store)
qed

lemma fast_predict_over_time_heap_eq:
  assumes "load h xa = Some (IntArray x)" "load h ya = Some (FloatArray y)"
    "load h za = Some (FloatArray z)" "load_core h da = Inr dummy"
  shows "fast_predict_over_time_heap rnd h xa ya za overlay da =
     (case fast_predict_over_time rnd x y z overlay dummy of
        Inl e \<Rightarrow> Inl e
      | Inr m \<Rightarrow> Inr (h @ [FloatMatrix m], length h))"
proof (cases "loop_length x y z dummy")
  case (Inl e)
  then show ?thesis
    using assms
    by (simp add: fast_predict_over_time_heap_def fast_predict_over_time_def load_int_eq load_float_eq)
next
  case (Inr n)
  let ?s = "core_len dummy"
  let ?rs = "replicate n (replicate ?s (0 :: real))"
  let ?h1 = "h @ [FloatMatrix (Mat ?s ?rs)]"
  have lt: "xa < length h" "ya < length h" "za < length h" "da < length h"
    using assms by (auto dest: load_Some_less load_core_less)
  then have ne: "length h \<noteq> xa" "length h \<noteq> ya" "length h \<noteq> za" "length h \<noteq> da" by simp_all
  have l1: "load ?h1 xa = Some (IntArray x)" "load ?h1 ya = Some (FloatArray y)"
    "load ?h1 za = Some (FloatArray z)"
    using assms lt by (simp_all add: load_def nth_append)
  have l2: "load_core ?h1 da = Inr dummy"
    using assms(4) lt(4) by (simp add: load_core_append)
  have l3: "load ?h1 (length h) = Some (FloatMatrix (Mat ?s ?rs))"
    by (simp add: load_def)
  have loop: "gufunc_loop_heap rnd xa ya za overlay da (length h) [0..<n] ?h1 =
      Inr (store ?h1 (length h) (FloatMatrix (Mat ?s (gufunc_loop rnd x y z overlay dummy [0..<n] ?rs))))"
    by (rule gufunc_loop_heap_eq [OF ne l1 l2 l3])
  have st: "store ?h1 (length h) v = h @ [v]" for v
    by (simp add: store_def)
  show ?thesis
    using assms Inr
    by (simp add: fast_predict_over_time_heap_def fast_predict_over_time_def load_int_eq load_float_eq
          alloc_def loop st Let_def)
qed

lemma core_loop_dim_same_shape: "same_shape d d' \<Longrightarrow> core_loop_dim d' = core_loop_dim d"
  by (cases d; cases d') (simp_all add: shape_def)

lemma loop_length_same_shape:
  "same_shape d d' \<Longrightarrow> loop_length x y z d' = loop_length x y z d"
  by (simp add: loop_length_def core_loop_dim_same_shape split: sum.splits)

lemma core_len_same_shape: "same_shape d d' \<Longrightarrow> core_len d' = core_len d"
  by (cases d; cases d') (simp_all add: shape_def)

lemma fast_predict_over_time_same_shape:
  assumes "same_shape d d'"
  shows "fast_predict_over_time rnd x y z overlay d' = fast_predict_over_time rnd x y z overlay d"
proof (cases "loop_length x y z d")
  case (Inl e)
  then show ?thesis
    using assms by (simp add: fast_predict_over_time_def loop_length_same_shape)
next
  case (Inr n)
  then have "loop_length x y z d' = Inr n"
    using assms by (simp add: loop_length_same_shape)
  then show ?thesis
    using Inr assms by (simp add: fast_predict_over_time_ok core_len_same_shape)
qed

text \<open>
  Claim C9. The fifth argument of \<^verbatim>\<open>fast_predict_over_time\<close> gives its shape only: a
  dummy array of the same shape and any other content gives the same outcome.
  The call does not write to the dummy array: it (and every other array of the
  store) is unchanged after the call, and the result is a newly allocated array,
  not the array passed in.
\<close>

theorem C9_dummy:
  assumes "load h xa = Some (IntArray x)" "load h ya = Some (FloatArray y)"
    "load h za = Some (FloatArray z)" "load_core h da = Inr dummy" "same_shape dummy dummy'"
  shows "fast_predict_over_time rnd x y z overlay dummy' = fast_predict_over_time rnd x y z overlay dummy \<and>
         (\<forall>m. fast_predict_over_time rnd x y z overlay dummy = Inr m \<longrightarrow>
            (\<exists>h' r. fast_predict_over_time_heap rnd h xa ya za overlay da = Inr (h', r) \<and>
               load h' r = Some (FloatMatrix m) \<and>
               load h' da = load h da \<and> r \<noteq> da \<and> load h r = None \<and>
               (\<forall>a < length h. load h' a = load h a)))"
proof -
  have "da < length h" using assms(4) by (rule load_core_less)
  then show ?thesis
    by (simp add: fast_predict_over_time_same_shape [OF assms(5)]
          fast_predict_over_time_heap_eq [OF assms(1-4)] load_def nth_append)
qed

text \<open>A dummy array \<^verbatim>\<open>[5, 6, 7]\<close> against \<^verbatim>\<open>[0, 0, 0]\<close>.\<close>

theorem C9_dummy_witness:
  "load [IntArray [2], FloatArray (Vec [1]), FloatArray (Vec [1 / 2]), FloatArray (Vec [5, 6, 7])] 0 = Some (IntArray [2]) \<and>
   load [IntArray [2], FloatArray (Vec [1]), FloatArray (Vec [1 / 2]), FloatArray (Vec [5, 6, 7])] 1 = Some (FloatArray (Vec [1])) \<and>
   load [IntArray [2], FloatArray (Vec [1]), FloatArray (Vec [1 / 2]), FloatArray (Vec [5, 6, 7])] 2 = Some (FloatArray (Vec [1 / 2])) \<and>
   load_core [IntArray [2], FloatArray (Vec [1]), FloatArray (Vec [1 / 2]), FloatArray (Vec [5, 6, 7])] 3 = Inr (Core1 [5, 6, 7]) \<and>
   same_shape (Core1 [5, 6, 7 :: real]) (Core1 [0, 0, 0]) \<and>
   fast_predict_over_time id [2] (Vec [1]) (Vec [1 / 2]) False (Core1 [0, 0, 0]) =
     fast_predict_over_time id [2] (Vec [1]) (Vec [1 / 2]) False (Core1 [5, 6, 7]) \<and>
   (\<exists>m h' r. fast_predict_over_time id [2] (Vec [1]) (Vec [1 / 2]) False (Core1 [5, 6, 7]) = Inr m \<and>
      fast_predict_over_time_heap id
        [IntArray [2], FloatArray (Vec [1]), FloatArray (Vec [1 / 2]), FloatArray (Vec [5, 6, 7])] 0 1 2 False 3 = Inr (h', r) \<and>
      load h' r = Some (FloatMatrix m) \<and>
      load h' 3 = Some (FloatArray (Vec [5, 6, 7])) \<and> r \<noteq> 3 \<and>
      load [IntArray [2], FloatArray (Vec [1]), FloatArray (Vec [1 / 2]), FloatArray (Vec [5, 6, 7])] r = None)"
proof -
  let ?h = "[IntArray [2], FloatArray (Vec [1]), FloatArray (Vec [1 / 2]), FloatArray (Vec [5, 6, 7])]"
  have l: "load ?h 0 = Some (IntArray [2])" "load ?h 1 = Some (FloatArray (Vec [1]))"
    "load ?h 2 = Some (FloatArray (Vec [1 / 2]))" "load_core ?h 3 = Inr (Core1 [5, 6, 7])"
    "same_shape (Core1 [5, 6, 7 :: real]) (Core1 [0, 0, 0])"
    by (simp_all add: load_def load_core_def)
  have l3: "load ?h 3 = Some (FloatArray (Vec [5, 6, 7]))" by (simp add: load_def)
  obtain m where m: "fast_predict_over_time id [2] (Vec [1]) (Vec [1 / 2]) False (Core1 [5, 6, 7]) = Inr m"
    by (simp add: fast_predict_over_time_equal_lengths)
  from C9_dummy [OF l, of id False] m l l3 show ?thesis by (auto simp del: same_shape.simps)
qed

end
